theory Spec2Isabelle
  imports Main
begin

section \<open>Data model of package \<open>logs\<close>\<close>

subsection \<open>Severity levels\<close>

text \<open>
  \<open>zapcore.Level\<close> is a signed integer type of the logging library; the package compares
  levels with \<open>>=\<close> and \<open><\<close> only, so the numeric values are what matters. The constants
  carry the library's values, ordered as the specification lists the levels:
  debug < info < warn < error < dpanic < panic < fatal.
\<close>

type_synonym zapcore_Level = int

definition DebugLevel :: zapcore_Level where "DebugLevel = - 1"
definition InfoLevel :: zapcore_Level where "InfoLevel = 0"
definition WarnLevel :: zapcore_Level where "WarnLevel = 1"
definition ErrorLevel :: zapcore_Level where "ErrorLevel = 2"
definition DPanicLevel :: zapcore_Level where "DPanicLevel = 3"
definition PanicLevel :: zapcore_Level where "PanicLevel = 4"
definition FatalLevel :: zapcore_Level where "FatalLevel = 5"

lemmas level_defs =
  DebugLevel_def InfoLevel_def WarnLevel_def ErrorLevel_def
  DPanicLevel_def PanicLevel_def FatalLevel_def

subsection \<open>Configuration and rotation hooks\<close>

text \<open>\<open>type LogConfig struct\<close> (logs.go, lines 15-20).\<close>

record LogConfig =
  FileName :: string
  Level :: string
  MaxAge :: int
  LocalTime :: bool

text \<open>
  The three fields of \<open>lumberjack.Logger\<close> that \<open>InitLogSetting\<close> sets; every other
  field keeps its zero value in both hooks.
\<close>

record lumberjack_Logger =
  lj_Filename :: string
  lj_MaxAge :: int
  lj_LocalTime :: bool

subsection \<open>Dynamic values, messages, entries\<close>

text \<open>Non-nil values of Go's \<open>interface{}\<close>, as far as the package handles them.\<close>

datatype any =
  AStr string
| AInt int
| ASlice "any list"
| AMap "(string \<times> any) list"

text \<open>
  What a call hands to the logger as its message: the arguments of a plain call
  (rendered by \<open>fmt.Sprint\<close>), a format with its arguments (\<open>fmt.Sprintf\<close>), or the
  literal message of a structured call.
\<close>

datatype message =
  Sprint "any list"
| Sprintf string "any list"
| Text string

record Entry =
  ent_Level :: zapcore_Level
  ent_Message :: message
  ent_Fields :: "(string \<times> any) list"
  ent_Stack :: bool

subsection \<open>Encoders, write syncers, cores, logger\<close>

datatype LevelEncoder = LowercaseLevelEncoder | CapitalLevelEncoder | CapitalColorLevelEncoder

datatype TimeEncoder = EpochTimeEncoder | TimeLayout string

text \<open>
  The fields of \<open>zapcore.EncoderConfig\<close> that \<open>InitLogSetting\<close> assigns: the remaining fields
  stay as \<open>zap.NewProductionEncoderConfig()\<close> returns them, the same in both encoders.
\<close>

record EncoderConfig =
  TimeKey :: string
  EncodeLevel :: LevelEncoder
  EncodeTime :: TimeEncoder

datatype Encoder = JSONEncoder EncoderConfig | ConsoleEncoder EncoderConfig

datatype WriteSyncer = Lumberjack lumberjack_Logger | OsStdout | OsStderr

text \<open>Where bytes end up: a file named by its path, or one of the console streams.\<close>

datatype stream = File string | Stdout | Stderr

fun target :: "WriteSyncer \<Rightarrow> stream" where
  "target (Lumberjack h) = File (lj_Filename h)"
| "target OsStdout = Stdout"
| "target OsStderr = Stderr"

text \<open>\<open>zapcore.NewCore(enc, ws, enab)\<close>.\<close>

record Core =
  core_enc :: Encoder
  core_out :: WriteSyncer
  core_enab :: "zapcore_Level \<Rightarrow> bool"

text \<open>
  The logger behind a \<open>*zap.SugaredLogger\<close>: the cores of the tee, the level from which a
  stack trace is attached (\<open>zap.AddStacktrace\<close>), and the structured fields bound by
  \<open>With\<close>.
\<close>

record SugaredLogger =
  cores :: "Core list"
  stacktrace :: "zapcore_Level option"
  with_fields :: "(string \<times> any) list"

subsection \<open>Package state\<close>

text \<open>
  Configurations live in a store and are referred to by pointer, as \<open>*LogConfig\<close> is
  in the source: \<open>GetLogConf\<close> hands out a pointer and the caller writes through it.
\<close>

datatype ptr = NilPtr | Ptr nat

record Frame =
  frame_func :: string
  frame_file :: string
  frame_line :: int

text \<open>
  The package variables \<open>conf\<close>, \<open>l\<close>, \<open>logFileHook\<close>, \<open>errLogFileHook\<close> (the hooks are
  nil until the first initialisation), the store of configurations, and what the
  package reads from and writes to its environment:
  \<^item> \<open>panicking\<close>: the value \<open>recover()\<close> returns in the deferred call, \<open>None\<close> when it
    returns nil;
  \<^item> \<open>callstack\<close>: the frames \<open>runtime.Caller(i)\<close> reports, \<open>i = 0\<close> the calling function
    itself, with the name \<open>runtime.FuncForPC\<close> gives for the frame's pc;
  \<^item> \<open>outputs\<close>: the records written so far to each stream, each with the encoder
    that rendered it.
\<close>

record world =
  heap :: "nat \<rightharpoonup> LogConfig"
  conf :: ptr
  l :: SugaredLogger
  logFileHook :: "lumberjack_Logger option"
  errLogFileHook :: "lumberjack_Logger option"
  panicking :: "any option"
  callstack :: "Frame list"
  outputs :: "stream \<Rightarrow> (Encoder \<times> Entry) list"

datatype panic = NilPointerDereference

fun deref :: "world \<Rightarrow> ptr \<Rightarrow> LogConfig option" where
  "deref s NilPtr = None"
| "deref s (Ptr a) = heap s a"

section \<open>Configuration and initialisation\<close>

text \<open>\<open>func GetLogConf() *LogConfig\<close> (lines 45-47): returns the package variable.\<close>

definition GetLogConf :: "world \<Rightarrow> ptr" where
  "GetLogConf s = conf s"

text \<open>
  Lines 51-54. The level starts at \<open>DebugLevel\<close>; \<open>level.UnmarshalText\<close> overwrites it
  when it recognises the text, and its error is discarded. The parser belongs to the
  logging library, so it is a parameter here: \<open>Some v\<close> is a recognised name of level
  \<open>v\<close>, \<open>None\<close> the error return.
\<close>

definition logLevel :: "(string \<Rightarrow> zapcore_Level option) \<Rightarrow> LogConfig \<Rightarrow> zapcore_Level" where
  "logLevel unmarshal c =
     (let level = DebugLevel
      in case unmarshal (Level c) of None \<Rightarrow> level | Some v \<Rightarrow> v)"

text \<open>
  Modelled from the spec: the level parser of the logging library is not part of the
  sources; this instance recognises the seven names that the comment on
  \<open>LogConfig.Level\<close> and the specification list, and is used where a concrete parser
  is needed.
\<close>

definition UnmarshalText :: "string \<Rightarrow> zapcore_Level option" where
  "UnmarshalText t =
     (if t = ''debug'' then Some DebugLevel
      else if t = ''info'' then Some InfoLevel
      else if t = ''warn'' then Some WarnLevel
      else if t = ''error'' then Some ErrorLevel
      else if t = ''dpanic'' then Some DPanicLevel
      else if t = ''panic'' then Some PanicLevel
      else if t = ''fatal'' then Some FatalLevel
      else None)"

definition NewProductionEncoderConfig :: EncoderConfig where
  "NewProductionEncoderConfig =
     \<lparr>TimeKey = ''ts'', EncodeLevel = LowercaseLevelEncoder, EncodeTime = EpochTimeEncoder\<rparr>"

text \<open>Lines 66-71 and 72-77.\<close>

definition consoleColoredEncoderConfig :: EncoderConfig where
  "consoleColoredEncoderConfig =
     NewProductionEncoderConfig
       \<lparr>TimeKey := ''time'', EncodeLevel := CapitalColorLevelEncoder,
        EncodeTime := TimeLayout ''2006-01-02 15:04:05.000''\<rparr>"

definition fileEncoderConfig :: EncoderConfig where
  "fileEncoderConfig =
     NewProductionEncoderConfig
       \<lparr>TimeKey := ''time'', EncodeLevel := CapitalLevelEncoder,
        EncodeTime := TimeLayout ''2006-01-02 15:04:05.000''\<rparr>"

text \<open>The three level enablers, lines 78-86, with the minimum level \<open>logLevel\<close> of the closure as first argument.\<close>

definition filePriority :: "zapcore_Level \<Rightarrow> zapcore_Level \<Rightarrow> bool" where
  "filePriority lv lvl = (lvl \<ge> lv)"

definition errPriority :: "zapcore_Level \<Rightarrow> zapcore_Level \<Rightarrow> bool" where
  "errPriority lv lvl = (lvl \<ge> lv \<and> lvl \<ge> ErrorLevel)"

definition stdoutPriority :: "zapcore_Level \<Rightarrow> zapcore_Level \<Rightarrow> bool" where
  "stdoutPriority lv lvl = (lvl \<ge> lv \<and> lvl < ErrorLevel)"

text \<open>
  \<open>func InitLogSetting(conf *LogConfig)\<close> (lines 49-98). The parameter shadows the
  package variable \<open>conf\<close>, which the function never assigns. Reading a field through a
  nil pointer panics. Both hooks are built with the literal \<open>LocalTime: true\<close>.
\<close>

definition InitLogSetting ::
  "(string \<Rightarrow> zapcore_Level option) \<Rightarrow> ptr \<Rightarrow> world \<Rightarrow> panic + world" where
  "InitLogSetting unmarshal p s =
     (case deref s p of
        None \<Rightarrow> Inl NilPointerDereference
      | Some c \<Rightarrow>
          (let lv = logLevel unmarshal c;
               hook = \<lparr>lj_Filename = ''./logs/'' @ FileName c @ ''.log'',
                        lj_MaxAge = MaxAge c, lj_LocalTime = True\<rparr>;
               errHook = \<lparr>lj_Filename = ''./logs/'' @ FileName c @ ''_err.log'',
                           lj_MaxAge = MaxAge c, lj_LocalTime = True\<rparr>;
               consoleEncoder = ConsoleEncoder consoleColoredEncoderConfig;
               fileEncoder = ConsoleEncoder fileEncoderConfig;
               tee =
                 [\<lparr>core_enc = fileEncoder, core_out = Lumberjack hook,
                    core_enab = filePriority lv\<rparr>,
                  \<lparr>core_enc = fileEncoder, core_out = Lumberjack errHook,
                    core_enab = errPriority lv\<rparr>,
                  \<lparr>core_enc = consoleEncoder, core_out = OsStdout,
                    core_enab = stdoutPriority lv\<rparr>,
                  \<lparr>core_enc = consoleEncoder, core_out = OsStderr,
                    core_enab = errPriority lv\<rparr>];
               logger = \<lparr>cores = tee, stacktrace = Some ErrorLevel, with_fields = []\<rparr>
           in Inr (s\<lparr>logFileHook := Some hook, errLogFileHook := Some errHook,
                     l := logger\<rparr>)))"

text \<open>
  The package variables as their initialisers leave them (lines 22-36):
  \<open>zap.NewProduction()\<close> is a JSON logger on standard error from info level, with stack
  traces from error level; the default configuration is the object at address 0.
\<close>

definition zapDefault :: SugaredLogger where
  "zapDefault =
     \<lparr>cores = [\<lparr>core_enc = JSONEncoder NewProductionEncoderConfig, core_out = OsStderr,
                 core_enab = (\<lambda>lvl. lvl \<ge> InfoLevel)\<rparr>],
      stacktrace = Some ErrorLevel, with_fields = []\<rparr>"

definition default_conf :: LogConfig where
  "default_conf = \<lparr>FileName = ''log'', Level = ''debug'', MaxAge = 20, LocalTime = True\<rparr>"

definition package_vars :: world where
  "package_vars =
     \<lparr>heap = [0 \<mapsto> default_conf], conf = Ptr 0, l = zapDefault,
      logFileHook = None, errLogFileHook = None,
      panicking = None, callstack = [], outputs = (\<lambda>d. [])\<rparr>"

text \<open>\<open>func init()\<close> (lines 38-42): runs \<open>InitLogSetting(conf)\<close> once.\<close>

definition init :: "(string \<Rightarrow> zapcore_Level option) \<Rightarrow> panic + world" where
  "init unmarshal = InitLogSetting unmarshal (conf package_vars) package_vars"

section \<open>Writing records\<close>

text \<open>
  Modelled from the spec: the logging library is a dependency and not part of the
  sources. Structured calls take alternating keys and values; a pair whose key is a
  string becomes a field, a pair with another key is dropped, and so is a trailing
  key without a value.
\<close>

fun sweetenFields :: "any list \<Rightarrow> (string \<times> any) list" where
  "sweetenFields (AStr k # v # rest) = (k, v) # sweetenFields rest"
| "sweetenFields (k # v # rest) = sweetenFields rest"
| "sweetenFields rest = []"

text \<open>
  Modelled from the spec: a core writes the record, rendered by its encoder, to its
  own destination; the tee offers the record to every core in turn, and each core
  takes it when its own level enabler accepts the record's level ("evaluated
  independently per sink").
\<close>

definition core_Write :: "Core \<Rightarrow> Entry \<Rightarrow> world \<Rightarrow> world" where
  "core_Write c e s =
     s\<lparr>outputs := (outputs s)
          (target (core_out c) := outputs s (target (core_out c)) @ [(core_enc c, e)])\<rparr>"

fun tee_Write :: "Core list \<Rightarrow> Entry \<Rightarrow> world \<Rightarrow> world" where
  "tee_Write [] e s = s"
| "tee_Write (c # cs) e s =
     tee_Write cs e (if core_enab c (ent_Level e) then core_Write c e s else s)"

text \<open>
  Modelled from the spec: the record a logger handle builds for a call: level, message,
  the handle's bound fields followed by the call's own, and a stack trace from the
  handle's stack-trace level on.
\<close>

definition new_Entry ::
  "SugaredLogger \<Rightarrow> zapcore_Level \<Rightarrow> message \<Rightarrow> any list \<Rightarrow> Entry" where
  "new_Entry lg lvl m kv =
     \<lparr>ent_Level = lvl, ent_Message = m,
      ent_Fields = with_fields lg @ sweetenFields kv,
      ent_Stack = (case stacktrace lg of None \<Rightarrow> False | Some t \<Rightarrow> lvl \<ge> t)\<rparr>"

definition SugaredLogger_log ::
  "SugaredLogger \<Rightarrow> zapcore_Level \<Rightarrow> message \<Rightarrow> any list \<Rightarrow> world \<Rightarrow> world" where
  "SugaredLogger_log lg lvl m kv s = tee_Write (cores lg) (new_Entry lg lvl m kv) s"

text \<open>Modelled from the spec: \<open>With\<close> on a handle binds the fields given as keys and values.\<close>

definition SugaredLogger_With :: "SugaredLogger \<Rightarrow> any list \<Rightarrow> SugaredLogger" where
  "SugaredLogger_With lg args = lg\<lparr>with_fields := with_fields lg @ sweetenFields args\<rparr>"

text \<open>
  Modelled from the spec: flushing asks every core's destination to sync; a rotation
  hook has no sync of its own, a console stream reports what the operating system
  says (\<open>fsync\<close>, the error text if any).
\<close>

fun WriteSyncer_Sync :: "(stream \<Rightarrow> string option) \<Rightarrow> WriteSyncer \<Rightarrow> string option" where
  "WriteSyncer_Sync fsync (Lumberjack h) = None"
| "WriteSyncer_Sync fsync OsStdout = fsync Stdout"
| "WriteSyncer_Sync fsync OsStderr = fsync Stderr"

definition SugaredLogger_Sync :: "(stream \<Rightarrow> string option) \<Rightarrow> SugaredLogger \<Rightarrow> string list" where
  "SugaredLogger_Sync fsync lg =
     List.map_filter (\<lambda>c. WriteSyncer_Sync fsync (core_out c)) (cores lg)"

section \<open>The leveled functions of the package\<close>

text \<open>
  Lines 118-164: each function forwards its arguments, spread, to the same method of
  the package logger \<open>l\<close>. The functions at panic and fatal level (lines 166-188) end
  the caller's control flow and are left out.
\<close>

definition Debug :: "any list \<Rightarrow> world \<Rightarrow> world" where
  "Debug v s = SugaredLogger_log (l s) DebugLevel (Sprint v) [] s"

definition Debugf :: "string \<Rightarrow> any list \<Rightarrow> world \<Rightarrow> world" where
  "Debugf format v s = SugaredLogger_log (l s) DebugLevel (Sprintf format v) [] s"

definition Debugw :: "string \<Rightarrow> any list \<Rightarrow> world \<Rightarrow> world" where
  "Debugw format keysAndValues s =
     SugaredLogger_log (l s) DebugLevel (Text format) keysAndValues s"

definition Info :: "any list \<Rightarrow> world \<Rightarrow> world" where
  "Info v s = SugaredLogger_log (l s) InfoLevel (Sprint v) [] s"

definition Infof :: "string \<Rightarrow> any list \<Rightarrow> world \<Rightarrow> world" where
  "Infof format v s = SugaredLogger_log (l s) InfoLevel (Sprintf format v) [] s"

definition Infow :: "string \<Rightarrow> any list \<Rightarrow> world \<Rightarrow> world" where
  "Infow format keysAndValues s =
     SugaredLogger_log (l s) InfoLevel (Text format) keysAndValues s"

definition Warn :: "any list \<Rightarrow> world \<Rightarrow> world" where
  "Warn v s = SugaredLogger_log (l s) WarnLevel (Sprint v) [] s"

definition Warnf :: "string \<Rightarrow> any list \<Rightarrow> world \<Rightarrow> world" where
  "Warnf format v s = SugaredLogger_log (l s) WarnLevel (Sprintf format v) [] s"

definition Warnw :: "string \<Rightarrow> any list \<Rightarrow> world \<Rightarrow> world" where
  "Warnw format keysAndValues s =
     SugaredLogger_log (l s) WarnLevel (Text format) keysAndValues s"

definition Error :: "any list \<Rightarrow> world \<Rightarrow> world" where
  "Error v s = SugaredLogger_log (l s) ErrorLevel (Sprint v) [] s"

definition Errorf :: "string \<Rightarrow> any list \<Rightarrow> world \<Rightarrow> world" where
  "Errorf format v s = SugaredLogger_log (l s) ErrorLevel (Sprintf format v) [] s"

definition Errorw :: "string \<Rightarrow> any list \<Rightarrow> world \<Rightarrow> world" where
  "Errorw format keysAndValues s =
     SugaredLogger_log (l s) ErrorLevel (Text format) keysAndValues s"

text \<open>\<open>func Sync() error\<close> (lines 190-192): the errors of the flush, none when it is nil.\<close>

definition Sync :: "(stream \<Rightarrow> string option) \<Rightarrow> world \<Rightarrow> string list \<times> world" where
  "Sync fsync s = (SugaredLogger_Sync fsync (l s), s)"

text \<open>
  \<open>func With(args ...interface{}) *zap.SugaredLogger\<close> (lines 194-196). The body is
  \<open>l.With(args)\<close>, without the spread that every other function of the file has
  (\<open>v...\<close>, \<open>keysAndValues...\<close>): the logger's \<open>With\<close> receives one argument, the slice
  itself. Only the returned handle is modelled, not what the library reports about
  its arguments.
\<close>

definition With :: "any list \<Rightarrow> world \<Rightarrow> SugaredLogger" where
  "With args s = SugaredLogger_With (l s) [ASlice args]"

section \<open>The panic stack reporter\<close>

definition runtime_Caller :: "world \<Rightarrow> nat \<Rightarrow> Frame option" where
  "runtime_Caller s i = (if i < length (callstack s) then Some (callstack s ! i) else None)"

text \<open>
  The loop of lines 105-110, entered with index \<open>i\<close>: while \<open>runtime.Caller(i)\<close> reports a
  frame, log it and go on with \<open>i + 1\<close>.
\<close>

function frame_loop :: "nat \<Rightarrow> world \<Rightarrow> world" where
  "frame_loop i s =
     (case runtime_Caller s i of
        None \<Rightarrow> s
      | Some f \<Rightarrow>
          frame_loop (Suc i)
            (Errorf ''frame %v:[func:%v,file:%v,line:%v]\<newline>''
               [AInt (int i), AStr (frame_func f), AStr (frame_file f), AInt (frame_line f)] s))"
  by pat_completeness auto
termination frame_loop
proof (relation "measure (\<lambda>(i, s). length (callstack s) - i)")
  show "wf (measure (\<lambda>(i, s). length (callstack s) - i))"
    by simp
next
  fix i :: nat and s :: world and f :: Frame
  assume ok: "runtime_Caller s i = Some f"
  have keep: "callstack (tee_Write cs e t) = callstack t" for cs e t
    by (induction cs arbitrary: t) (simp_all add: core_Write_def)
  from ok have "i < length (callstack s)"
    by (simp add: runtime_Caller_def split: if_splits)
  then show "((Suc i,
        Errorf ''frame %v:[func:%v,file:%v,line:%v]\<newline>''
          [AInt (int i), AStr (frame_func f), AStr (frame_file f), AInt (frame_line f)] s),
       (i, s)) \<in> measure (\<lambda>(i, s). length (callstack s) - i)"
    by (simp add: Errorf_def SugaredLogger_log_def keep)
qed

declare frame_loop.simps [simp del]

text \<open>
  \<open>func PrintPanicStack(extras ...interface{})\<close> (lines 101-116), run as a deferred call.
  \<open>recover()\<close> hands over the panic value and ends the panic; when it returns nil the
  body is skipped. \<open>Sdump\<close> is the deep dump of the \<open>spew\<close> library, a parameter.
\<close>

definition PrintPanicStack :: "(any \<Rightarrow> string) \<Rightarrow> any list \<Rightarrow> world \<Rightarrow> world" where
  "PrintPanicStack Sdump extras s =
     (case panicking s of
        None \<Rightarrow> s
      | Some x \<Rightarrow>
          (let s1 = Error [x] (s\<lparr>panicking := None\<rparr>);
               s2 = frame_loop 0 s1
           in fold (\<lambda>k. Errorf ''EXTRAS#%v DATA:%v\<newline>''
                          [AInt (int k), AStr (Sdump (extras ! k))])
                [0..<length extras] s2))"

section \<open>Client steps and reference definitions\<close>

text \<open>
  A run of calls \<open>InitLogSetting(p1); ...; InitLogSetting(pn)\<close>, stopping at the first
  panic.
\<close>

fun InitLogSettings ::
  "(string \<Rightarrow> zapcore_Level option) \<Rightarrow> ptr list \<Rightarrow> world \<Rightarrow> panic + world" where
  "InitLogSettings unmarshal [] s = Inr s"
| "InitLogSettings unmarshal (p # ps) s =
     (case InitLogSetting unmarshal p s of
        Inl e \<Rightarrow> Inl e
      | Inr s' \<Rightarrow> InitLogSettings unmarshal ps s')"

text \<open>
  A caller's write through a configuration pointer, as \<open>conf.MaxAge = 30\<close> in the
  package's usage notes: \<open>f\<close> is the change to the object.
\<close>

definition assign :: "ptr \<Rightarrow> (LogConfig \<Rightarrow> LogConfig) \<Rightarrow> world \<Rightarrow> panic + world" where
  "assign p f s =
     (case p of
        NilPtr \<Rightarrow> Inl NilPointerDereference
      | Ptr a \<Rightarrow>
          (case heap s a of
             None \<Rightarrow> Inl NilPointerDereference
           | Some c \<Rightarrow> Inr (s\<lparr>heap := (heap s)(a \<mapsto> f c)\<rparr>)))"

text \<open>
  The records a logger handle delivers to a destination for one entry, in the
  specification's words: every sink whose own predicate accepts the entry's level
  receives it, independently of the others.
\<close>

definition delivered :: "SugaredLogger \<Rightarrow> Entry \<Rightarrow> stream \<Rightarrow> (Encoder \<times> Entry) list" where
  "delivered lg e d =
     map (\<lambda>c. (core_enc c, e))
       (filter (\<lambda>c. core_enab c (ent_Level e) \<and> target (core_out c) = d) (cores lg))"

text \<open>
  The report of a recovered panic in the specification's words: the recovered value,
  then one message per stack frame from the reporter's own frame outward, with index,
  function name, file and line, then one message per extra diagnostic, with its index
  and its deep dump.
\<close>

definition panic_report :: "(any \<Rightarrow> string) \<Rightarrow> any \<Rightarrow> Frame list \<Rightarrow> any list \<Rightarrow> message list" where
  "panic_report Sdump x frames extras =
     Sprint [x] #
     map (\<lambda>(i, f). Sprintf ''frame %v:[func:%v,file:%v,line:%v]\<newline>''
            [AInt (int i), AStr (frame_func f), AStr (frame_file f), AInt (frame_line f)])
       (enumerate 0 frames) @
     map (\<lambda>(k, v). Sprintf ''EXTRAS#%v DATA:%v\<newline>'' [AInt (int k), AStr (Sdump v)])
       (enumerate 0 extras)"

text \<open>
  \<open>WithFields\<close> in the specification's words: the handle returned is the package logger
  with the given keys and values bound as fields.
\<close>

definition WithFields :: "any list \<Rightarrow> world \<Rightarrow> SugaredLogger" where
  "WithFields keyValue s = SugaredLogger_With (l s) keyValue"

text \<open>The package variables a call may or may not touch, compared between two states.\<close>

definition same_package_vars :: "world \<Rightarrow> world \<Rightarrow> bool" where
  "same_package_vars s s' \<longleftrightarrow>
     heap s' = heap s \<and> conf s' = conf s \<and> l s' = l s \<and>
     logFileHook s' = logFileHook s \<and> errLogFileHook s' = errLogFileHook s"

section \<open>Concrete package states\<close>

text \<open>The state after \<open>init()\<close>, with the parser of the seven level names.\<close>

definition started :: world where
  "started = projr (init UnmarshalText)"

text \<open>The default configuration with one field changed, before initialisation.\<close>

definition fatal_conf_vars :: world where
  "fatal_conf_vars = package_vars\<lparr>heap := [0 \<mapsto> default_conf\<lparr>Level := ''fatal''\<rparr>]\<rparr>"

definition utc_conf_vars :: world where
  "utc_conf_vars = package_vars\<lparr>heap := [0 \<mapsto> default_conf\<lparr>LocalTime := False\<rparr>]\<rparr>"

definition verbose_conf_vars :: world where
  "verbose_conf_vars = package_vars\<lparr>heap := [0 \<mapsto> default_conf\<lparr>Level := ''verbose''\<rparr>]\<rparr>"

text \<open>A caller has made a second configuration, with stem \<open>app\<close>, at address 1.\<close>

definition two_conf_vars :: world where
  "two_conf_vars =
     package_vars\<lparr>heap := [0 \<mapsto> default_conf, 1 \<mapsto> default_conf\<lparr>FileName := ''app''\<rparr>]\<rparr>"

text \<open>The change of the package's usage notes, \<open>conf.MaxAge = 30\<close>.\<close>

definition max_age_30 :: "LogConfig \<Rightarrow> LogConfig" where
  "max_age_30 c = c\<lparr>MaxAge := 30\<rparr>"

text \<open>A deferred \<open>PrintPanicStack\<close> running after \<open>panic("boom")\<close> in \<open>main\<close>.\<close>

definition panicking_vars :: world where
  "panicking_vars =
     started\<lparr>panicking := Some (AStr ''boom''),
       callstack :=
         [\<lparr>frame_func = ''logs.PrintPanicStack'', frame_file = ''logs.go'', frame_line = 105\<rparr>,
          \<lparr>frame_func = ''runtime.gopanic'', frame_file = ''panic.go'', frame_line = 770\<rparr>,
          \<lparr>frame_func = ''main.main'', frame_file = ''main.go'', frame_line = 9\<rparr>]\<rparr>"

section \<open>Basic facts\<close>

lemma tee_Write_eq:
  "tee_Write cs e s =
     s\<lparr>outputs := (\<lambda>d. outputs s d @ map (\<lambda>c. (core_enc c, e))
          (filter (\<lambda>c. core_enab c (ent_Level e) \<and> target (core_out c) = d) cs))\<rparr>"
proof (induction cs arbitrary: s)
  case Nil
  show ?case by simp
next
  case (Cons c cs)
  show ?case
    by (simp add: Cons.IH core_Write_def fun_eq_iff)
qed

text \<open>A call on a handle appends, on every stream, what the handle delivers there.\<close>

lemma SugaredLogger_log_eq:
  "SugaredLogger_log lg lvl m kv s =
     s\<lparr>outputs := (\<lambda>d. outputs s d @ delivered lg (new_Entry lg lvl m kv) d)\<rparr>"
  by (simp add: SugaredLogger_log_def tee_Write_eq delivered_def new_Entry_def)

lemma log_l [simp]: "l (SugaredLogger_log lg lvl m kv s) = l s"
  and log_callstack [simp]: "callstack (SugaredLogger_log lg lvl m kv s) = callstack s"
  and log_panicking [simp]: "panicking (SugaredLogger_log lg lvl m kv s) = panicking s"
  by (simp_all add: SugaredLogger_log_eq)

lemma fold_log_other:
  "panicking (fold (\<lambda>m. SugaredLogger_log lg lvl m kv) ms s) = panicking s"
  "l (fold (\<lambda>m. SugaredLogger_log lg lvl m kv) ms s) = l s"
  by (induction ms arbitrary: s) simp_all

lemma fold_log_outputs:
  "outputs (fold (\<lambda>m. SugaredLogger_log lg lvl m kv) ms s) d =
     outputs s d @ concat (map (\<lambda>m. delivered lg (new_Entry lg lvl m kv) d) ms)"
  by (induction ms arbitrary: s) (simp_all add: SugaredLogger_log_eq)

lemma same_package_vars_log: "same_package_vars s (SugaredLogger_log lg lvl m kv s)"
  by (simp add: same_package_vars_def SugaredLogger_log_eq)

lemma same_package_vars_fold:
  "same_package_vars s (fold (\<lambda>m. SugaredLogger_log lg lvl m kv) ms s)"
  by (induction ms rule: rev_induct) (simp_all add: same_package_vars_def SugaredLogger_log_eq)

subsection \<open>Initialisation\<close>

lemma InitLogSetting_Some:
  "deref s p = Some c \<Longrightarrow>
   InitLogSetting um p s =
     Inr (s\<lparr>logFileHook := Some \<lparr>lj_Filename = ''./logs/'' @ FileName c @ ''.log'',
                        lj_MaxAge = MaxAge c, lj_LocalTime = True\<rparr>,
           errLogFileHook := Some \<lparr>lj_Filename = ''./logs/'' @ FileName c @ ''_err.log'',
                           lj_MaxAge = MaxAge c, lj_LocalTime = True\<rparr>,
           l := \<lparr>cores =
                 [\<lparr>core_enc = ConsoleEncoder fileEncoderConfig,
                    core_out = Lumberjack \<lparr>lj_Filename = ''./logs/'' @ FileName c @ ''.log'',
                        lj_MaxAge = MaxAge c, lj_LocalTime = True\<rparr>,
                    core_enab = filePriority (logLevel um c)\<rparr>,
                  \<lparr>core_enc = ConsoleEncoder fileEncoderConfig,
                    core_out = Lumberjack \<lparr>lj_Filename = ''./logs/'' @ FileName c @ ''_err.log'',
                           lj_MaxAge = MaxAge c, lj_LocalTime = True\<rparr>,
                    core_enab = errPriority (logLevel um c)\<rparr>,
                  \<lparr>core_enc = ConsoleEncoder consoleColoredEncoderConfig, core_out = OsStdout,
                    core_enab = stdoutPriority (logLevel um c)\<rparr>,
                  \<lparr>core_enc = ConsoleEncoder consoleColoredEncoderConfig, core_out = OsStderr,
                    core_enab = errPriority (logLevel um c)\<rparr>],
                 stacktrace = Some ErrorLevel, with_fields = []\<rparr>\<rparr>)"
  by (simp add: InitLogSetting_def Let_def)

lemma InitLogSetting_Inr_deref:
  "InitLogSetting um p s = Inr s' \<Longrightarrow> \<exists>c. deref s p = Some c"
  by (cases "deref s p") (simp_all add: InitLogSetting_def)

lemma deref_InitLogSetting:
  "InitLogSetting um p s = Inr s' \<Longrightarrow> deref s' q = deref s q"
  by (cases q; cases "deref s p") (auto simp: InitLogSetting_def Let_def)

lemma InitLogSetting_conf:
  "InitLogSetting um p s = Inr s' \<Longrightarrow> conf s' = conf s \<and> heap s' = heap s"
  by (cases "deref s p") (auto simp: InitLogSetting_def Let_def)

lemma InitLogSettings_conf:
  "InitLogSettings um ps s = Inr s' \<Longrightarrow> conf s' = conf s \<and> heap s' = heap s"
proof (induction ps arbitrary: s)
  case Nil
  then show ?case by simp
next
  case (Cons p ps)
  then show ?case
    by (auto split: sum.splits dest: InitLogSetting_conf)
qed

lemma assign_Inr:
  "assign p f s = Inr s' \<Longrightarrow>
     \<exists>a c. p = Ptr a \<and> heap s a = Some c \<and> s' = s\<lparr>heap := (heap s)(a \<mapsto> f c)\<rparr>"
  by (auto simp: assign_def split: ptr.splits option.splits)

lemma deref_package_vars: "deref package_vars (Ptr 0) = Some default_conf"
  by (simp add: package_vars_def)

lemma init_started: "init UnmarshalText = Inr started"
  by (simp add: started_def init_def package_vars_def InitLogSetting_def Let_def)

lemma started_eq:
  "started =
     package_vars
       \<lparr>logFileHook := Some \<lparr>lj_Filename = ''./logs/log.log'', lj_MaxAge = 20,
                                lj_LocalTime = True\<rparr>,
        errLogFileHook := Some \<lparr>lj_Filename = ''./logs/log_err.log'', lj_MaxAge = 20,
                                   lj_LocalTime = True\<rparr>,
        l := \<lparr>cores =
                 [\<lparr>core_enc = ConsoleEncoder fileEncoderConfig,
                    core_out = Lumberjack \<lparr>lj_Filename = ''./logs/log.log'', lj_MaxAge = 20,
                                            lj_LocalTime = True\<rparr>,
                    core_enab = filePriority DebugLevel\<rparr>,
                  \<lparr>core_enc = ConsoleEncoder fileEncoderConfig,
                    core_out = Lumberjack \<lparr>lj_Filename = ''./logs/log_err.log'',
                                            lj_MaxAge = 20, lj_LocalTime = True\<rparr>,
                    core_enab = errPriority DebugLevel\<rparr>,
                  \<lparr>core_enc = ConsoleEncoder consoleColoredEncoderConfig, core_out = OsStdout,
                    core_enab = stdoutPriority DebugLevel\<rparr>,
                  \<lparr>core_enc = ConsoleEncoder consoleColoredEncoderConfig, core_out = OsStderr,
                    core_enab = errPriority DebugLevel\<rparr>],
               stacktrace = Some ErrorLevel, with_fields = []\<rparr>\<rparr>"
  by (simp add: started_def init_def InitLogSetting_def package_vars_def default_conf_def
      logLevel_def UnmarshalText_def Let_def)

lemma started_fields:
  "outputs started = (\<lambda>d. [])" "with_fields (l started) = []"
  "stacktrace (l started) = Some ErrorLevel" "panicking started = None"
  "conf started = Ptr 0" "heap started = [0 \<mapsto> default_conf]"
  by (simp_all add: started_eq) (simp_all add: package_vars_def)

lemma logLevel_default_conf: "logLevel UnmarshalText default_conf = DebugLevel"
  by (simp add: logLevel_def UnmarshalText_def default_conf_def)

lemma paths_differ: "''./logs/'' @ n @ ''.log'' \<noteq> ''./logs/'' @ n @ ''_err.log''"
proof
  assume "''./logs/'' @ n @ ''.log'' = ''./logs/'' @ n @ ''_err.log''"
  then have "length (''./logs/'' @ n @ ''.log'') = length (''./logs/'' @ n @ ''_err.log'')"
    by (rule arg_cong)
  then show False by simp
qed

subsection \<open>The panic stack reporter\<close>

lemma frame_loop_fold:
  "frame_loop i s =
     fold (\<lambda>m. SugaredLogger_log (l s) ErrorLevel m [])
       (map (\<lambda>(j, f). Sprintf ''frame %v:[func:%v,file:%v,line:%v]\<newline>''
               [AInt (int j), AStr (frame_func f), AStr (frame_file f), AInt (frame_line f)])
          (enumerate i (drop i (callstack s)))) s"
proof (induction i s rule: frame_loop.induct)
  case (1 i s)
  show ?case
  proof (cases "i < length (callstack s)")
    case False
    then show ?thesis
      by (subst frame_loop.simps) (simp add: runtime_Caller_def)
  next
    case True
    let ?f = "callstack s ! i"
    let ?s1 = "Errorf ''frame %v:[func:%v,file:%v,line:%v]\<newline>''
          [AInt (int i), AStr (frame_func ?f), AStr (frame_file ?f), AInt (frame_line ?f)] s"
    have rc: "runtime_Caller s i = Some ?f"
      using True by (simp add: runtime_Caller_def)
    have cs: "callstack ?s1 = callstack s" and ls: "l ?s1 = l s"
      by (simp_all add: Errorf_def)
    have split: "drop i (callstack s) = ?f # drop (Suc i) (callstack s)"
      using True by (simp add: Cons_nth_drop_Suc)
    have "frame_loop i s = frame_loop (Suc i) ?s1"
      by (subst frame_loop.simps) (simp add: rc)
    also have "\<dots> = fold (\<lambda>m. SugaredLogger_log (l s) ErrorLevel m [])
       (map (\<lambda>(j, f). Sprintf ''frame %v:[func:%v,file:%v,line:%v]\<newline>''
               [AInt (int j), AStr (frame_func f), AStr (frame_file f), AInt (frame_line f)])
          (enumerate (Suc i) (drop (Suc i) (callstack s)))) ?s1"
      using "1.IH" [OF rc] by (simp only: cs ls)
    finally show ?thesis
      by (simp add: split Errorf_def)
  qed
qed

lemma extras_fold:
  "l t = lg \<Longrightarrow>
   fold (\<lambda>k. Errorf fmt (g k (xs ! k))) [0..<length xs] t =
     fold (\<lambda>m. SugaredLogger_log lg ErrorLevel m [])
       (map (\<lambda>(k, v). Sprintf fmt (g k v)) (enumerate 0 xs)) t"
proof (induction xs arbitrary: t rule: rev_induct)
  case Nil
  show ?case by simp
next
  case (snoc x xs)
  let ?u = "fold (\<lambda>m. SugaredLogger_log lg ErrorLevel m [])
       (map (\<lambda>(k, v). Sprintf fmt (g k v)) (enumerate 0 xs)) t"
  have a: "fold (\<lambda>k. Errorf fmt (g k ((xs @ [x]) ! k))) [0..<length xs] t =
        fold (\<lambda>k. Errorf fmt (g k (xs ! k))) [0..<length xs] t"
    by (rule fold_cong) (simp_all add: nth_append)
  have b: "fold (\<lambda>k. Errorf fmt (g k (xs ! k))) [0..<length xs] t = ?u"
    using snoc.IH [OF snoc.prems] .
  have c: "l ?u = lg"
    using snoc.prems by (simp add: fold_log_other)
  have "fold (\<lambda>k. Errorf fmt (g k ((xs @ [x]) ! k))) [0..<length (xs @ [x])] t =
        Errorf fmt (g (length xs) x) ?u"
    by (simp add: a b)
  also have "\<dots> = SugaredLogger_log lg ErrorLevel (Sprintf fmt (g (length xs) x)) [] ?u"
    by (simp only: Errorf_def c)
  finally show ?case
    by (simp add: enumerate_append_eq)
qed

text \<open>
  With a panic in flight the reporter is the same as logging the messages of
  \<open>panic_report\<close>, in order, at error level on the package logger, after the
  panic has been cleared.
\<close>

lemma PrintPanicStack_Some:
  assumes "panicking s = Some x"
  shows "PrintPanicStack Sdump extras s =
           fold (\<lambda>m. SugaredLogger_log (l s) ErrorLevel m [])
             (panic_report Sdump x (callstack s) extras) (s\<lparr>panicking := None\<rparr>)"
proof -
  let ?lg = "l s"
  let ?s0 = "s\<lparr>panicking := None\<rparr>"
  let ?s1 = "Error [x] ?s0"
  let ?s2 = "frame_loop 0 ?s1"
  have s1: "?s1 = SugaredLogger_log ?lg ErrorLevel (Sprint [x]) [] ?s0"
    by (simp add: Error_def)
  have l1: "l ?s1 = ?lg" and cs1: "callstack ?s1 = callstack s"
    by (simp_all add: s1)
  have s2: "?s2 = fold (\<lambda>m. SugaredLogger_log ?lg ErrorLevel m [])
       (map (\<lambda>(j, f). Sprintf ''frame %v:[func:%v,file:%v,line:%v]\<newline>''
               [AInt (int j), AStr (frame_func f), AStr (frame_file f), AInt (frame_line f)])
          (enumerate 0 (callstack s))) ?s1"
    by (simp add: frame_loop_fold l1 cs1)
  have l2: "l ?s2 = ?lg"
    by (simp only: s2 fold_log_other l1)
  have "PrintPanicStack Sdump extras s =
      fold (\<lambda>k. Errorf ''EXTRAS#%v DATA:%v\<newline>''
                  [AInt (int k), AStr (Sdump (extras ! k))]) [0..<length extras] ?s2"
    using assms by (simp add: PrintPanicStack_def Let_def)
  also have "\<dots> = fold (\<lambda>m. SugaredLogger_log ?lg ErrorLevel m [])
       (map (\<lambda>(k, v). Sprintf ''EXTRAS#%v DATA:%v\<newline>'' [AInt (int k), AStr (Sdump v)])
          (enumerate 0 extras)) ?s2"
    by (rule extras_fold [OF l2, where g = "\<lambda>k v. [AInt (int k), AStr (Sdump v)]"])
  also have "\<dots> = fold (\<lambda>m. SugaredLogger_log ?lg ErrorLevel m [])
       (panic_report Sdump x (callstack s) extras) ?s0"
    by (subst s2) (simp add: s1 panic_report_def)
  finally show ?thesis .
qed

lemma same_package_vars_PrintPanicStack:
  "same_package_vars s (PrintPanicStack Sdump extras s)"
proof (cases "panicking s")
  case None
  then show ?thesis
    by (simp add: PrintPanicStack_def same_package_vars_def)
next
  case (Some x)
  have "same_package_vars (s\<lparr>panicking := None\<rparr>) (PrintPanicStack Sdump extras s)"
    unfolding PrintPanicStack_Some [OF Some] by (rule same_package_vars_fold)
  then show ?thesis
    by (simp add: same_package_vars_def)
qed

text \<open>Whatever the arguments, the handle of \<open>With\<close> has the fields of the package logger.\<close>

lemma With_drops_arguments: "with_fields (With args s) = with_fields (l s)"
  by (simp add: With_def SugaredLogger_With_def)

section \<open>The claims\<close>

subsection \<open>C1: the four sink predicates\<close>

text \<open>
  C1, as amended. After \<open>InitLogSetting\<close> on a configuration \<open>c\<close>, a record logged at level
  \<open>lvl\<close> is appended (once, rendered by the file encoder) to \<open>./logs/<stem>.log\<close> exactly
  when \<open>lvl\<close> is at least the minimum level; to \<open>./logs/<stem>_err.log\<close> exactly when
  \<open>lvl\<close> is at least the minimum level and at least error; to stdout (console encoder)
  exactly when \<open>lvl\<close> is at least the minimum level and below error; to stderr exactly
  when the error-file condition holds. Each stream is decided on its own. So a
  record at error level or above reaches the main file, the error file and stderr
  provided its level is also at least the minimum level, and a record from the minimum
  level up to, but excluding, error reaches stdout and not stderr.
\<close>

theorem sink_routing_after_init:
  assumes "deref s p = Some c" and "InitLogSetting um p s = Inr s'"
  shows "(let lo = logLevel um c;
              e = new_Entry (l s') lvl m kv;
              t = SugaredLogger_log (l s') lvl m kv s'
          in outputs t (File (''./logs/'' @ FileName c @ ''.log'')) =
               outputs s' (File (''./logs/'' @ FileName c @ ''.log'')) @
               (if lvl \<ge> lo then [(ConsoleEncoder fileEncoderConfig, e)] else []) \<and>
             outputs t (File (''./logs/'' @ FileName c @ ''_err.log'')) =
               outputs s' (File (''./logs/'' @ FileName c @ ''_err.log'')) @
               (if lvl \<ge> lo \<and> lvl \<ge> ErrorLevel
                then [(ConsoleEncoder fileEncoderConfig, e)] else []) \<and>
             outputs t Stdout =
               outputs s' Stdout @
               (if lvl \<ge> lo \<and> lvl < ErrorLevel
                then [(ConsoleEncoder consoleColoredEncoderConfig, e)] else []) \<and>
             outputs t Stderr =
               outputs s' Stderr @
               (if lvl \<ge> lo \<and> lvl \<ge> ErrorLevel
                then [(ConsoleEncoder consoleColoredEncoderConfig, e)] else []))"
proof -
  have neq: "''./logs/'' @ FileName c @ ''_err.log'' \<noteq> ''./logs/'' @ FileName c @ ''.log''"
    using paths_differ [of "FileName c"] by (rule not_sym)
  from assms(2) have s': "l s' = \<lparr>cores =
                 [\<lparr>core_enc = ConsoleEncoder fileEncoderConfig,
                    core_out = Lumberjack \<lparr>lj_Filename = ''./logs/'' @ FileName c @ ''.log'',
                        lj_MaxAge = MaxAge c, lj_LocalTime = True\<rparr>,
                    core_enab = filePriority (logLevel um c)\<rparr>,
                  \<lparr>core_enc = ConsoleEncoder fileEncoderConfig,
                    core_out = Lumberjack \<lparr>lj_Filename = ''./logs/'' @ FileName c @ ''_err.log'',
                           lj_MaxAge = MaxAge c, lj_LocalTime = True\<rparr>,
                    core_enab = errPriority (logLevel um c)\<rparr>,
                  \<lparr>core_enc = ConsoleEncoder consoleColoredEncoderConfig, core_out = OsStdout,
                    core_enab = stdoutPriority (logLevel um c)\<rparr>,
                  \<lparr>core_enc = ConsoleEncoder consoleColoredEncoderConfig, core_out = OsStderr,
                    core_enab = errPriority (logLevel um c)\<rparr>],
                 stacktrace = Some ErrorLevel, with_fields = []\<rparr>"
    unfolding InitLogSetting_Some [OF assms(1)] by auto
  show ?thesis
    unfolding Let_def SugaredLogger_log_eq
    by (simp add: s' delivered_def new_Entry_def filePriority_def errPriority_def
        stdoutPriority_def neq paths_differ del: append.simps)
qed

text \<open>
  With the default configuration an error record lands in the main file and not on
  stdout.
\<close>

theorem sink_routing_after_init_witness:
  "deref package_vars (Ptr 0) = Some default_conf \<and>
   outputs (Error [AStr ''boom''] started) (File ''./logs/log.log'') =
     [(ConsoleEncoder fileEncoderConfig,
       \<lparr>ent_Level = ErrorLevel, ent_Message = Sprint [AStr ''boom''], ent_Fields = [],
        ent_Stack = True\<rparr>)] \<and>
   outputs (Error [AStr ''boom''] started) Stdout = []"
proof -
  have i: "InitLogSetting UnmarshalText (Ptr 0) package_vars = Inr started"
    using init_started by (simp add: init_def package_vars_def)
  have fn: "FileName default_conf = ''log''"
    by (simp add: default_conf_def)
  have "outputs (Error [AStr ''boom''] started) (File ''./logs/log.log'') =
     [(ConsoleEncoder fileEncoderConfig,
       \<lparr>ent_Level = ErrorLevel, ent_Message = Sprint [AStr ''boom''], ent_Fields = [],
        ent_Stack = True\<rparr>)] \<and>
   outputs (Error [AStr ''boom''] started) Stdout = []"
    using sink_routing_after_init [OF deref_package_vars i, of ErrorLevel
        "Sprint [AStr ''boom'']" "[]"]
    by (simp add: Let_def logLevel_default_conf started_fields fn Error_def new_Entry_def
        level_defs)
  with deref_package_vars show ?thesis
    by (rule conjI)
qed

text \<open>
  The claim as stated fails: with the minimum level \<open>fatal\<close>, a record at error level
  (which is at least error) appears neither in the main file, nor in the error file,
  nor on stderr.
\<close>

theorem error_record_below_minimum_dropped:
  "ErrorLevel \<ge> ErrorLevel \<and>
   outputs (Error [AStr ''boom''] (projr (InitLogSetting UnmarshalText (Ptr 0) fatal_conf_vars)))
     (File ''./logs/log.log'') = [] \<and>
   outputs (Error [AStr ''boom''] (projr (InitLogSetting UnmarshalText (Ptr 0) fatal_conf_vars)))
     (File ''./logs/log_err.log'') = [] \<and>
   outputs (Error [AStr ''boom''] (projr (InitLogSetting UnmarshalText (Ptr 0) fatal_conf_vars)))
     Stderr = []"
  by (simp add: InitLogSetting_def fatal_conf_vars_def package_vars_def default_conf_def Let_def
      Error_def SugaredLogger_log_def core_Write_def new_Entry_def logLevel_def
      UnmarshalText_def filePriority_def errPriority_def stdoutPriority_def level_defs)

subsection \<open>C2: reporting a panic\<close>

text \<open>
  C2. Run as a deferred call while a panic with value \<open>x\<close> is in flight,
  \<open>PrintPanicStack\<close> ends the panic and logs, at error level on the package logger and
  in this order: the recovered value; one message per frame of the call stack, from the
  reporter's own frame (index 0) to the last, each with index, function name, file and
  line; one message per extra diagnostic with its index and its deep dump. These are
  \<open>1 + frames + extras\<close> messages, and on every stream the output grows by exactly what
  the logger delivers there for them.
\<close>

theorem PrintPanicStack_reports_panic:
  assumes "panicking s = Some x"
  shows "PrintPanicStack Sdump extras s =
           fold (\<lambda>m. SugaredLogger_log (l s) ErrorLevel m [])
             (panic_report Sdump x (callstack s) extras) (s\<lparr>panicking := None\<rparr>) \<and>
         length (panic_report Sdump x (callstack s) extras) =
           1 + length (callstack s) + length extras \<and>
         panicking (PrintPanicStack Sdump extras s) = None \<and>
         (\<forall>d. outputs (PrintPanicStack Sdump extras s) d =
           outputs s d @
           concat (map (\<lambda>m. delivered (l s) (new_Entry (l s) ErrorLevel m []) d)
                     (panic_report Sdump x (callstack s) extras)))"
proof -
  have len: "length (panic_report Sdump x (callstack s) extras) =
      1 + length (callstack s) + length extras"
    by (simp add: panic_report_def)
  show ?thesis
    unfolding PrintPanicStack_Some [OF assms] using len
    by (simp add: fold_log_outputs fold_log_other)
qed

text \<open>
  After \<open>panic("boom")\<close> with three frames on the stack and the extra \<open>{"x": 1}\<close>, the
  error file holds five records.
\<close>

theorem PrintPanicStack_reports_panic_witness:
  "panicking panicking_vars = Some (AStr ''boom'') \<and>
   panicking (PrintPanicStack (\<lambda>v. ''(dump)'') [AMap [(''x'', AInt 1)]] panicking_vars) = None \<and>
   map (\<lambda>r. ent_Message (snd r))
     (outputs (PrintPanicStack (\<lambda>v. ''(dump)'') [AMap [(''x'', AInt 1)]] panicking_vars)
        (File ''./logs/log_err.log'')) =
     [Sprint [AStr ''boom''],
      Sprintf ''frame %v:[func:%v,file:%v,line:%v]\<newline>''
        [AInt 0, AStr ''logs.PrintPanicStack'', AStr ''logs.go'', AInt 105],
      Sprintf ''frame %v:[func:%v,file:%v,line:%v]\<newline>''
        [AInt 1, AStr ''runtime.gopanic'', AStr ''panic.go'', AInt 770],
      Sprintf ''frame %v:[func:%v,file:%v,line:%v]\<newline>''
        [AInt 2, AStr ''main.main'', AStr ''main.go'', AInt 9],
      Sprintf ''EXTRAS#%v DATA:%v\<newline>'' [AInt 0, AStr ''(dump)'']]"
proof -
  have p: "panicking panicking_vars = Some (AStr ''boom'')"
    by (simp add: panicking_vars_def)
  have st: "outputs panicking_vars = (\<lambda>d. [])"
    "l panicking_vars = l started"
    "callstack panicking_vars =
         [\<lparr>frame_func = ''logs.PrintPanicStack'', frame_file = ''logs.go'', frame_line = 105\<rparr>,
          \<lparr>frame_func = ''runtime.gopanic'', frame_file = ''panic.go'', frame_line = 770\<rparr>,
          \<lparr>frame_func = ''main.main'', frame_file = ''main.go'', frame_line = 9\<rparr>]"
    by (simp_all add: panicking_vars_def started_fields)
  have lg: "cores (l started) =
       [\<lparr>core_enc = ConsoleEncoder fileEncoderConfig,
          core_out = Lumberjack \<lparr>lj_Filename = ''./logs/log.log'',
                        lj_MaxAge = 20, lj_LocalTime = True\<rparr>,
          core_enab = filePriority DebugLevel\<rparr>,
        \<lparr>core_enc = ConsoleEncoder fileEncoderConfig,
          core_out = Lumberjack \<lparr>lj_Filename = ''./logs/log_err.log'',
                        lj_MaxAge = 20, lj_LocalTime = True\<rparr>,
          core_enab = errPriority DebugLevel\<rparr>,
        \<lparr>core_enc = ConsoleEncoder consoleColoredEncoderConfig, core_out = OsStdout,
          core_enab = stdoutPriority DebugLevel\<rparr>,
        \<lparr>core_enc = ConsoleEncoder consoleColoredEncoderConfig, core_out = OsStderr,
          core_enab = errPriority DebugLevel\<rparr>]"
    by (simp add: started_eq)
  note report =
    PrintPanicStack_reports_panic [OF p, of "\<lambda>v. ''(dump)''" "[AMap [(''x'', AInt 1)]]"]
  from report
  have cleared:
    "panicking (PrintPanicStack (\<lambda>v. ''(dump)'') [AMap [(''x'', AInt 1)]] panicking_vars) = None"
    by (rule conjunct1 [OF conjunct2 [OF conjunct2]])
  from report
  have "outputs (PrintPanicStack (\<lambda>v. ''(dump)'') [AMap [(''x'', AInt 1)]] panicking_vars)
          (File ''./logs/log_err.log'') =
        outputs panicking_vars (File ''./logs/log_err.log'') @
        concat (map (\<lambda>m. delivered (l panicking_vars)
                        (new_Entry (l panicking_vars) ErrorLevel m [])
                        (File ''./logs/log_err.log''))
                  (panic_report (\<lambda>v. ''(dump)'') (AStr ''boom'') (callstack panicking_vars)
                     [AMap [(''x'', AInt 1)]]))"
    by (rule spec [OF conjunct2 [OF conjunct2 [OF conjunct2]]])
  then have written:
    "map (\<lambda>r. ent_Message (snd r))
     (outputs (PrintPanicStack (\<lambda>v. ''(dump)'') [AMap [(''x'', AInt 1)]] panicking_vars)
        (File ''./logs/log_err.log'')) =
     [Sprint [AStr ''boom''],
      Sprintf ''frame %v:[func:%v,file:%v,line:%v]\<newline>''
        [AInt 0, AStr ''logs.PrintPanicStack'', AStr ''logs.go'', AInt 105],
      Sprintf ''frame %v:[func:%v,file:%v,line:%v]\<newline>''
        [AInt 1, AStr ''runtime.gopanic'', AStr ''panic.go'', AInt 770],
      Sprintf ''frame %v:[func:%v,file:%v,line:%v]\<newline>''
        [AInt 2, AStr ''main.main'', AStr ''main.go'', AInt 9],
      Sprintf ''EXTRAS#%v DATA:%v\<newline>'' [AInt 0, AStr ''(dump)'']]"
    by (simp add: st lg panic_report_def delivered_def new_Entry_def errPriority_def
        filePriority_def stdoutPriority_def level_defs)
  from p cleared written show ?thesis
    by (intro conjI)
qed

subsection \<open>C3: the local-time flag\<close>

text \<open>
  C3 does not hold of the code. The comment on \<open>LogConfig.LocalTime\<close> says that false
  selects UTC, but both hooks are built with the literal \<open>LocalTime: true\<close>: for the
  default configuration with the flag set to false, both rotation sinks still use
  local time.
\<close>

theorem hooks_ignore_LocalTime_flag:
  "map_option LocalTime (deref utc_conf_vars (Ptr 0)) = Some False \<and>
   map_option lj_LocalTime
     (logFileHook (projr (InitLogSetting UnmarshalText (Ptr 0) utc_conf_vars))) = Some True \<and>
   map_option lj_LocalTime
     (errLogFileHook (projr (InitLogSetting UnmarshalText (Ptr 0) utc_conf_vars))) = Some True"
  by (simp add: InitLogSetting_def utc_conf_vars_def package_vars_def default_conf_def Let_def)

subsection \<open>C4: an unrecognised level name\<close>

text \<open>
  C4. For a configuration whose level string the parser rejects, \<open>InitLogSetting\<close>
  returns normally (no panic, no error value), and the minimum level is the one the
  level variable held before parsing, debug: the four enablers are those of
  \<open>DebugLevel\<close>.
\<close>

theorem unrecognized_level_keeps_debug:
  assumes "deref s p = Some c" and "um (Level c) = None"
  shows "\<exists>s'. InitLogSetting um p s = Inr s' \<and> logLevel um c = DebugLevel \<and>
     map core_enab (cores (l s')) =
       [filePriority DebugLevel, errPriority DebugLevel,
        stdoutPriority DebugLevel, errPriority DebugLevel]"
  using assms(2) by (simp add: InitLogSetting_Some [OF assms(1)] logLevel_def)

theorem unrecognized_level_keeps_debug_witness:
  "deref verbose_conf_vars (Ptr 0) = Some (default_conf\<lparr>Level := ''verbose''\<rparr>) \<and>
   UnmarshalText (Level (default_conf\<lparr>Level := ''verbose''\<rparr>)) = None \<and>
   (\<exists>s'. InitLogSetting UnmarshalText (Ptr 0) verbose_conf_vars = Inr s' \<and>
      logLevel UnmarshalText (default_conf\<lparr>Level := ''verbose''\<rparr>) = DebugLevel \<and>
      map core_enab (cores (l s')) =
        [filePriority DebugLevel, errPriority DebugLevel,
         stdoutPriority DebugLevel, errPriority DebugLevel])"
proof -
  have d: "deref verbose_conf_vars (Ptr 0) = Some (default_conf\<lparr>Level := ''verbose''\<rparr>)"
    by (simp add: verbose_conf_vars_def package_vars_def)
  have u: "UnmarshalText (Level (default_conf\<lparr>Level := ''verbose''\<rparr>)) = None"
    by (simp add: UnmarshalText_def)
  from d u unrecognized_level_keeps_debug [where um = UnmarshalText, OF d u]
  show ?thesis
    by (intro conjI)
qed

subsection \<open>C5: the configuration pointer\<close>

text \<open>
  C5, as amended. \<open>GetLogConf\<close> returns the package's configuration pointer itself (a
  shared reference, not a copy), and no \<open>InitLogSetting\<close> call changes which object that
  is: after any sequence of \<open>InitLogSetting\<close> calls, whatever configurations were passed,
  it returns the object it returned before them. Writing through the returned pointer
  changes neither the logger nor the two sink handles; once the pointer is passed to
  \<open>InitLogSetting\<close> again, the sinks and level predicates are built from the written
  values.
\<close>

theorem GetLogConf_same_object:
  assumes "InitLogSettings um ps s = Inr s1"
    and "assign (GetLogConf s1) f s1 = Inr s2"
    and "InitLogSetting um (GetLogConf s2) s2 = Inr s3"
  shows "GetLogConf s1 = GetLogConf s \<and> GetLogConf s2 = GetLogConf s \<and>
         GetLogConf s3 = GetLogConf s \<and>
         l s2 = l s1 \<and> logFileHook s2 = logFileHook s1 \<and>
         errLogFileHook s2 = errLogFileHook s1 \<and>
         (\<exists>c. deref s (GetLogConf s) = Some c \<and> deref s2 (GetLogConf s) = Some (f c) \<and>
              map_option lj_Filename (logFileHook s3) =
                Some (''./logs/'' @ FileName (f c) @ ''.log'') \<and>
              map_option lj_Filename (errLogFileHook s3) =
                Some (''./logs/'' @ FileName (f c) @ ''_err.log'') \<and>
              map_option lj_MaxAge (logFileHook s3) = Some (MaxAge (f c)) \<and>
              map_option lj_MaxAge (errLogFileHook s3) = Some (MaxAge (f c)) \<and>
              map core_enab (cores (l s3)) =
                [filePriority (logLevel um (f c)), errPriority (logLevel um (f c)),
                 stdoutPriority (logLevel um (f c)), errPriority (logLevel um (f c))])"
proof -
  from InitLogSettings_conf [OF assms(1)]
  have c1: "conf s1 = conf s" and h1: "heap s1 = heap s"
    by simp_all
  from assign_Inr [OF assms(2)] obtain a c where
    p: "conf s1 = Ptr a" and hc: "heap s1 a = Some c" and
    s2: "s2 = s1\<lparr>heap := (heap s1)(a \<mapsto> f c)\<rparr>"
    by (auto simp: GetLogConf_def)
  have d2: "deref s2 (GetLogConf s2) = Some (f c)"
    by (simp add: s2 GetLogConf_def p)
  from InitLogSetting_conf [OF assms(3)] have c3: "conf s3 = conf s2"
    by simp
  have "deref s (GetLogConf s) = Some c"
    using p hc c1 h1 by (simp add: GetLogConf_def)
  moreover have "deref s2 (GetLogConf s) = Some (f c)"
    using d2 c1 by (simp add: GetLogConf_def s2)
  ultimately show ?thesis
    using assms(3) c1 c3 unfolding InitLogSetting_Some [OF d2]
    by (auto simp: GetLogConf_def s2)
qed

text \<open>
  The usage notes' sequence: after \<open>init()\<close>, \<open>conf := GetLogConf(); conf.MaxAge = 30\<close>
  leaves the retention of the main sink at 20 days, and \<open>InitLogSetting(conf)\<close> makes it
  30.
\<close>

theorem GetLogConf_same_object_witness:
  "InitLogSettings UnmarshalText [Ptr 0] package_vars = Inr started \<and>
   GetLogConf started = Ptr 0 \<and>
   map_option lj_MaxAge (logFileHook started) = Some 20 \<and>
   map_option lj_MaxAge (logFileHook (projr (assign (Ptr 0) max_age_30 started))) = Some 20 \<and>
   map_option lj_MaxAge
     (logFileHook (projr (InitLogSetting UnmarshalText (Ptr 0)
        (projr (assign (Ptr 0) max_age_30 started))))) = Some 30"
proof -
  let ?s2 = "started\<lparr>heap := [0 \<mapsto> max_age_30 default_conf]\<rparr>"
  have g: "GetLogConf started = Ptr 0"
    by (simp add: GetLogConf_def started_fields)
  have h1: "InitLogSettings UnmarshalText [Ptr 0] package_vars = Inr started"
    using init_started by (simp add: init_def package_vars_def)
  have a: "assign (Ptr 0) max_age_30 started = Inr ?s2"
    by (simp add: assign_def started_fields)
  then have h2: "assign (GetLogConf started) max_age_30 started = Inr ?s2"
    by (simp only: g)
  have g2: "GetLogConf ?s2 = Ptr 0"
    by (simp add: GetLogConf_def started_fields)
  have d2: "deref ?s2 (Ptr 0) = Some (max_age_30 default_conf)"
    by simp
  obtain s3 where i3: "InitLogSetting UnmarshalText (Ptr 0) ?s2 = Inr s3"
    by (simp add: InitLogSetting_Some [OF d2])
  then have h3: "InitLogSetting UnmarshalText (GetLogConf ?s2) ?s2 = Inr s3"
    by (simp only: g2)
  from GetLogConf_same_object [OF h1 h2 h3]
  obtain c where "deref package_vars (GetLogConf package_vars) = Some c"
    and "map_option lj_MaxAge (logFileHook s3) = Some (MaxAge (max_age_30 c))"
    by blast
  then have m3: "map_option lj_MaxAge (logFileHook s3) = Some 30"
    by (simp add: max_age_30_def)
  have m1: "map_option lj_MaxAge (logFileHook started) = Some 20"
    by (simp add: started_eq)
  have m2: "map_option lj_MaxAge (logFileHook (projr (assign (Ptr 0) max_age_30 started))) =
      Some 20"
    by (simp add: a m1)
  have m3': "map_option lj_MaxAge
     (logFileHook (projr (InitLogSetting UnmarshalText (Ptr 0)
        (projr (assign (Ptr 0) max_age_30 started))))) = Some 30"
    by (simp add: a i3 m3)
  from h1 g m1 m2 m3' show ?thesis
    by (intro conjI)
qed

text \<open>
  The claim as stated fails: after \<open>InitLogSetting\<close> on the default object and then on a
  second configuration with stem \<open>app\<close>, the active logger's main sink is
  \<open>./logs/app.log\<close>, while \<open>GetLogConf\<close> still returns the default object, whose stem is
  \<open>log\<close>.
\<close>

theorem GetLogConf_not_active_configuration:
  "GetLogConf (projr (InitLogSettings UnmarshalText [Ptr 0, Ptr 1] two_conf_vars)) = Ptr 0 \<and>
   map_option FileName
     (deref (projr (InitLogSettings UnmarshalText [Ptr 0, Ptr 1] two_conf_vars))
        (GetLogConf (projr (InitLogSettings UnmarshalText [Ptr 0, Ptr 1] two_conf_vars)))) =
     Some ''log'' \<and>
   map_option lj_Filename
     (logFileHook (projr (InitLogSettings UnmarshalText [Ptr 0, Ptr 1] two_conf_vars))) =
     Some ''./logs/app.log''"
  by (simp add: InitLogSetting_def two_conf_vars_def package_vars_def default_conf_def Let_def
      GetLogConf_def)

subsection \<open>C6: fields bound by \<open>With\<close>\<close>

text \<open>
  C6 does not hold of the code. \<open>With("k", "v")\<close> hands the logger one argument, the
  slice of both values, which is a key without a value: the returned handle has no
  field \<open>k\<close>, whereas binding the given keys and values, as the claim describes and
  as the structured functions of the same file do by spreading their arguments,
  gives the field \<open>k = v\<close>.
\<close>

theorem With_binds_no_fields:
  "with_fields (With [AStr ''k'', AStr ''v''] started) = [] \<and>
   with_fields (WithFields [AStr ''k'', AStr ''v''] started) = [(''k'', AStr ''v'')]"
  by (simp add: With_def WithFields_def SugaredLogger_With_def started_fields)

subsection \<open>C7: sink paths and retention\<close>

text \<open>
  C7. For every configuration \<open>c\<close> with stem \<open>S\<close>, \<open>InitLogSetting\<close> returns normally, the
  main hook has the path \<open>./logs/S.log\<close> and the error hook the path \<open>./logs/S_err.log\<close>
  (both relative, starting at the working directory), both hooks have the retention
  age \<open>MaxAge c\<close>, and the first two cores of the logger write to these two hooks, in
  this order.
\<close>

theorem sink_paths_and_retention:
  assumes "deref s p = Some c"
  shows "\<exists>s'. InitLogSetting um p s = Inr s' \<and>
      map_option lj_Filename (logFileHook s') = Some (''./logs/'' @ FileName c @ ''.log'') \<and>
      map_option lj_Filename (errLogFileHook s') =
        Some (''./logs/'' @ FileName c @ ''_err.log'') \<and>
      map_option lj_MaxAge (logFileHook s') = Some (MaxAge c) \<and>
      map_option lj_MaxAge (errLogFileHook s') = Some (MaxAge c) \<and>
      map (\<lambda>k. Some (core_out k)) (take 2 (cores (l s'))) =
        [map_option Lumberjack (logFileHook s'), map_option Lumberjack (errLogFileHook s')]"
  by (simp add: InitLogSetting_Some [OF assms])

theorem sink_paths_and_retention_witness:
  "deref package_vars (Ptr 0) = Some default_conf \<and>
   (\<exists>s'. InitLogSetting UnmarshalText (Ptr 0) package_vars = Inr s' \<and>
      map_option lj_Filename (logFileHook s') = Some ''./logs/log.log'' \<and>
      map_option lj_Filename (errLogFileHook s') = Some ''./logs/log_err.log'' \<and>
      map_option lj_MaxAge (logFileHook s') = Some 20 \<and>
      map_option lj_MaxAge (errLogFileHook s') = Some 20)"
proof -
  from sink_paths_and_retention [OF deref_package_vars, of UnmarshalText]
  have "\<exists>s'. InitLogSetting UnmarshalText (Ptr 0) package_vars = Inr s' \<and>
      map_option lj_Filename (logFileHook s') = Some ''./logs/log.log'' \<and>
      map_option lj_Filename (errLogFileHook s') = Some ''./logs/log_err.log'' \<and>
      map_option lj_MaxAge (logFileHook s') = Some 20 \<and>
      map_option lj_MaxAge (errLogFileHook s') = Some 20"
    by (auto simp: default_conf_def)
  with deref_package_vars show ?thesis
    by (rule conjI)
qed

subsection \<open>C8: no panic in flight\<close>

text \<open>
  C8. When no panic is in flight (\<open>recover()\<close> returns nil), \<open>PrintPanicStack\<close> returns
  the state it was given: nothing is written to any stream, and logger,
  configuration and sink handles are as before, whatever extras are passed.
\<close>

theorem PrintPanicStack_without_panic:
  assumes "panicking s = None"
  shows "PrintPanicStack Sdump extras s = s"
  using assms by (simp add: PrintPanicStack_def)

theorem PrintPanicStack_without_panic_witness:
  "panicking started = None \<and>
   PrintPanicStack (\<lambda>v. ''(dump)'') [AMap [(''x'', AInt 1)], AInt 2] started = started"
proof -
  have n: "panicking started = None"
    by (simp add: started_fields)
  from n PrintPanicStack_without_panic [OF n] show ?thesis
    by (rule conjI)
qed

subsection \<open>C9: initialising twice\<close>

text \<open>
  C9. When \<open>InitLogSetting\<close> on a configuration has brought the package into state \<open>s'\<close>,
  a second call with the same configuration returns normally and leaves the package
  in \<open>s'\<close> again: same sink paths and retention ages, same level predicates, same
  encoders.
\<close>

theorem InitLogSetting_idempotent:
  assumes "InitLogSetting um p s = Inr s'"
  shows "InitLogSetting um p s' = Inr s'"
proof -
  from assms obtain c where c: "deref s p = Some c"
    using InitLogSetting_Inr_deref by blast
  then have c': "deref s' p = Some c"
    using deref_InitLogSetting [OF assms] by simp
  from assms show ?thesis
    unfolding InitLogSetting_Some [OF c] InitLogSetting_Some [OF c'] by auto
qed

theorem InitLogSetting_idempotent_witness:
  "InitLogSetting UnmarshalText (Ptr 0) package_vars = Inr started \<and>
   InitLogSetting UnmarshalText (Ptr 0) started = Inr started"
proof -
  have i: "InitLogSetting UnmarshalText (Ptr 0) package_vars = Inr started"
    using init_started by (simp add: init_def package_vars_def)
  from i InitLogSetting_idempotent [OF i] show ?thesis
    by (rule conjI)
qed

subsection \<open>C10: what logging leaves alone\<close>

text \<open>
  C10. Each of \<open>Debug\<close>, \<open>Info\<close>, \<open>Warn\<close>, \<open>Error\<close>, their formatted and structured variants,
  and \<open>Sync\<close> leaves the configuration object and the pointer to it, both rotation
  hooks and the package logger as they were; so does the panic reporter. Among the
  functions of the package only \<open>InitLogSetting\<close> assigns the hooks and the logger.
\<close>

theorem logging_keeps_package_vars:
  "same_package_vars s (Debug v s) \<and> same_package_vars s (Debugf format v s) \<and>
   same_package_vars s (Debugw format kv s) \<and>
   same_package_vars s (Info v s) \<and> same_package_vars s (Infof format v s) \<and>
   same_package_vars s (Infow format kv s) \<and>
   same_package_vars s (Warn v s) \<and> same_package_vars s (Warnf format v s) \<and>
   same_package_vars s (Warnw format kv s) \<and>
   same_package_vars s (Error v s) \<and> same_package_vars s (Errorf format v s) \<and>
   same_package_vars s (Errorw format kv s) \<and>
   same_package_vars s (snd (Sync fsync s)) \<and>
   same_package_vars s (PrintPanicStack Sdump extras s)"
proof -
  have "same_package_vars s (snd (Sync fsync s))"
    by (simp add: Sync_def same_package_vars_def)
  then show ?thesis
    unfolding Debug_def Debugf_def Debugw_def Info_def Infof_def Infow_def
      Warn_def Warnf_def Warnw_def Error_def Errorf_def Errorw_def
    by (intro conjI same_package_vars_log same_package_vars_PrintPanicStack)
qed

end
